theory Spec2Isabelle
  imports Complex_Main "HOL-Library.Word"
begin

section \<open>Scalars and vectors\<close>

text \<open>
  \<open>size_t\<close> is taken as a 64-bit unsigned integer and \<open>int32_t\<close>/\<open>int\<close> as a 32-bit
  word. \<open>glm::vec2\<close>, \<open>glm::vec3\<close> and their integer variants are tuples of their
  components.
\<close>

type_synonym size_t = "64 word"
type_synonym int32_t = "32 word"

datatype 'a vec2 = vec2 (vec2_x: 'a) (vec2_y: 'a)
datatype 'a vec3 = vec3 (vec3_x: 'a) (vec3_y: 'a) (vec3_z: 'a)

text \<open>
  The type \<open>'f\<close> stands for \<open>float\<close>. The program's float arithmetic is not
  interpreted: the operations the modelled code applies to floats are the fields of a
  record that every function takes as its first argument, so that each theorem holds
  for every reading of them, IEEE binary32 included. \<open>flit q\<close> is the float a decimal
  literal such as \<open>0.01f\<close> denotes.
\<close>

record 'f float_ops =
  flit :: "rat \<Rightarrow> 'f"
  fadd :: "'f \<Rightarrow> 'f \<Rightarrow> 'f"
  fmul :: "'f \<Rightarrow> 'f \<Rightarrow> 'f"
  fdiv :: "'f \<Rightarrow> 'f \<Rightarrow> 'f"
  fge :: "'f \<Rightarrow> 'f \<Rightarrow> bool"
  float_of_size_t :: "size_t \<Rightarrow> 'f"
  float_of_int32 :: "int32_t \<Rightarrow> 'f"
  int32_of_float :: "'f \<Rightarrow> int32_t"

section \<open>Collaborators of \<open>b2::Game\<close> that game.cpp only uses\<close>

text \<open>
  Modelled from the spec: the macro \<open>_assert(condition, code)\<close> of exception.hpp, which
  is not part of the sources. Section 7 of the design calls a failed start-up check an
  unrecoverable configuration error that fails fast; the model raises an error that
  carries the code.
\<close>

datatype error = AssertionFailed "32 word" | JsonError | NotJoinable

definition assert_failed :: "bool \<Rightarrow> 32 word \<Rightarrow> error option" where
  "assert_failed condition code = (if condition then None else Some (AssertionFailed code))"

text \<open>
  Modelled from the spec: the type of the member \<open>Game::acceleration\<close> (declared in
  game.hpp, not part of the sources). Section 4.8: \<open>push(vec)\<close> overwrites the
  latest-value slot, \<open>get()\<close> returns the current value and leaves it in place.
\<close>

datatype 'a latest_value = LatestValue (slot: 'a)

definition lv_push :: "'a \<Rightarrow> 'a latest_value \<Rightarrow> 'a latest_value" where
  "lv_push v s = LatestValue v"

definition lv_get :: "'a latest_value \<Rightarrow> 'a" where
  "lv_get s = slot s"

text \<open>
  Modelled from the spec: the type of the member \<open>Game::mesh\<close> (declared in game.hpp, not
  part of the sources). Section 4.6: two slots and a selector; \<open>swap(newMesh)\<close> moves the
  new mesh into the inactive slot and then flips the selector, \<open>get()\<close> returns the
  contents of the active slot.
\<close>

record 'a double_buffer =
  slot0 :: 'a
  slot1 :: 'a
  active1 :: bool

definition db_swap :: "'a \<Rightarrow> 'a double_buffer \<Rightarrow> 'a double_buffer" where
  "db_swap newMesh b =
     (if active1 b then b\<lparr>slot0 := newMesh, active1 := False\<rparr>
      else b\<lparr>slot1 := newMesh, active1 := True\<rparr>)"

definition db_get :: "'a double_buffer \<Rightarrow> 'a" where
  "db_get b = (if active1 b then slot1 b else slot0 b)"

text \<open>
  The classes \<open>physics::Cloud\<close> (\<open>'c\<close>), \<open>Isosurface\<close> (\<open>'i\<close>),
  \<open>Isosurface::MeshVertex\<close> (\<open>'v\<close>) and \<open>physics::Particle\<close> (\<open>'p\<close>), and the constants
  \<open>margin\<close> and \<open>radius\<close> of game.hpp, are not part of the sources. They are parameters
  of the model. \<open>Cloud_new\<close> stands for the constructor call of lines 64 to 70 together
  with the generator closure it is given, which draws each particle from a
  \<open>std::default_random_engine\<close> seeded with \<open>Timer::getTimestamp()\<close>.
\<close>

record ('f, 'c, 'p, 'i, 'v) collaborators =
  margin :: int32_t
  radius :: 'f
  Cloud_new :: "int32_t vec3 \<Rightarrow> size_t \<Rightarrow> 'c"
  Cloud_update :: "'f vec3 \<Rightarrow> 'f \<Rightarrow> bool \<Rightarrow> 'c \<Rightarrow> 'c"
  Cloud_getParticles :: "'c \<Rightarrow> 'p list"
  Isosurface_new :: "int32_t vec3 \<Rightarrow> 'i"
  Isosurface_generateMesh :: "'p list \<Rightarrow> 'f \<Rightarrow> bool \<Rightarrow> 'i \<Rightarrow> 'v list \<times> 'i"

section \<open>The state of a \<open>b2::Game\<close>\<close>

text \<open>
  \<open>logicThread\<close> records where the simulation thread stands: not yet created, created
  by \<open>std::thread(logicRoutine, this)\<close> but before its first statement, at the test of
  the \<open>while\<close> loop, inside the loop's body, or returned from \<open>logicRoutine\<close>.
\<close>

datatype thread_state = NotStarted | Spawned | AtLoopHead | InLoopBody | Returned

text \<open>
  The calls by which the simulation thread acts on the rest of the program, in the order
  they are made: \<open>alive.load()\<close> with the value read, \<open>particlesCloud.update\<close> with its
  three arguments, \<open>mesh.swap\<close> with the mesh published, and \<open>info\<close> with the two
  averages it prints.
\<close>

datatype ('f, 'v) event =
  AliveLoad bool
  | CloudUpdate "'f vec3" 'f bool
  | MeshSwap "'v list"
  | Info 'f 'f

text \<open>
  The members of \<open>Game\<close> that the simulation side reads or writes, the locals of
  \<open>logicRoutine\<close> (\<open>frames\<close>, \<open>elapsed\<close>, \<open>pTime\<close>, \<open>rTime\<close>), and the calls made so far.
  \<open>render\<close> holds the members that only the presentation side uses.
\<close>

record ('f, 'c, 'i, 'v, 'r) game =
  acceleration :: "'f vec3 latest_value"
  alive :: bool
  singleThread :: bool
  gridSize :: "int32_t vec3"
  particlesCloud :: 'c
  isosurface :: 'i
  mesh :: "'v list double_buffer"
  logicThread :: thread_state
  frames :: size_t
  elapsed :: 'f
  pTime :: 'f
  rTime :: 'f
  events :: "('f, 'v) event list"
  render :: 'r

section \<open>Construction\<close>

text \<open>
  The member initialiser list of \<open>Game::Game\<close> (lines 20 to 24), applied to the
  default-constructed members \<open>g\<close>. A default-constructed \<open>std::thread\<close> runs nothing.
\<close>

definition Game_members :: "'f float_ops \<Rightarrow> ('f, 'c, 'i, 'v, 'r) game \<Rightarrow> ('f, 'c, 'i, 'v, 'r) game" where
  "Game_members F g =
     g\<lparr>acceleration := LatestValue (vec3 (flit F 0) (flit F (- 9.8)) (flit F 0)),
       alive := True,
       singleThread := True,
       logicThread := NotStarted\<rparr>"

text \<open>\<open>glm::ivec3(margin)\<close> has \<open>margin\<close> in each component; \<open>+\<close> adds componentwise.\<close>

definition ivec3_splat :: "int32_t \<Rightarrow> int32_t vec3" where
  "ivec3_splat m = vec3 m m m"

definition ivec3_add :: "int32_t vec3 \<Rightarrow> int32_t vec3 \<Rightarrow> int32_t vec3" where
  "ivec3_add a b = vec3 (vec3_x a + vec3_x b) (vec3_y a + vec3_y b) (vec3_z a + vec3_z b)"

text \<open>
  \<open>Game::initLogicThread\<close> (lines 57 to 73). A failed assertion leaves the function at
  once: the result is \<open>Inl\<close> of the error and of the state at that point. Otherwise the
  grid size is computed, the cloud and the isosurface are built, and the thread is
  created.
\<close>

definition initLogicThread ::
  "'f float_ops \<Rightarrow> ('f, 'c, 'p, 'i, 'v) collaborators \<Rightarrow> int32_t vec2 \<Rightarrow> size_t \<Rightarrow> size_t \<Rightarrow>
   ('f, 'c, 'i, 'v, 'r) game \<Rightarrow> error \<times> ('f, 'c, 'i, 'v, 'r) game + ('f, 'c, 'i, 'v, 'r) game" where
  "initLogicThread F X surfaceSize gridWidth particlesCount g =
     (case assert_failed (gridWidth > 0) 0xd78eead8 of
        Some e \<Rightarrow> Inl (e, g)
      | None \<Rightarrow>
     (case assert_failed (particlesCount > 0) 0xd78eead8 of
        Some e \<Rightarrow> Inl (e, g)
      | None \<Rightarrow>
        let g1 = g\<lparr>gridSize :=
                   vec3 (ucast gridWidth)
                     (int32_of_float F
                        (fdiv F
                           (fmul F (float_of_size_t F gridWidth) (float_of_int32 F (vec2_y surfaceSize)))
                           (float_of_int32 F (vec2_x surfaceSize))))
                     (ucast gridWidth)\<rparr>;
            g2 = g1\<lparr>particlesCloud := Cloud_new X (gridSize g1) particlesCount\<rparr>;
            g3 = g2\<lparr>isosurface := Isosurface_new X (ivec3_add (gridSize g2) (ivec3_splat (margin X)))\<rparr>;
            g4 = g3\<lparr>logicThread := Spawned\<rparr>
        in Inr g4))"

text \<open>
  The values \<open>Game::Game\<close> reads from configs/game.json. A key that is absent makes
  \<open>json::at\<close> throw.
\<close>

record config =
  cfg_physics_present :: bool
  cfg_singleThread :: "bool option"
  cfg_gridWidth :: "size_t option"
  cfg_particlesCount :: "size_t option"

text \<open>
  \<open>Game::Game\<close> (lines 19 to 37), from the point where configs/game.json has been read
  and parsed. \<open>initRender\<close> only touches the presentation members; it is the parameter
  \<open>initRender\<close>.
\<close>

definition Game_new ::
  "'f float_ops \<Rightarrow> ('f, 'c, 'p, 'i, 'v) collaborators \<Rightarrow> ('r \<Rightarrow> 'r) \<Rightarrow> config \<Rightarrow> int32_t vec2 \<Rightarrow>
   ('f, 'c, 'i, 'v, 'r) game \<Rightarrow> error \<times> ('f, 'c, 'i, 'v, 'r) game + ('f, 'c, 'i, 'v, 'r) game" where
  "Game_new F X initRender cfg surfaceSize g0 =
     (let g = Game_members F g0 in
      if \<not> cfg_physics_present cfg then Inl (JsonError, g)
      else case cfg_singleThread cfg of
        None \<Rightarrow> Inl (JsonError, g)
      | Some st \<Rightarrow>
        let g' = g\<lparr>singleThread := st\<rparr> in
        (case (cfg_gridWidth cfg, cfg_particlesCount cfg) of
           (Some gridWidth, Some particlesCount) \<Rightarrow>
             (case initLogicThread F X surfaceSize gridWidth particlesCount g' of
                Inl e \<Rightarrow> Inl e
              | Inr g'' \<Rightarrow> Inr (g''\<lparr>render := initRender (render g'')\<rparr>))
         | _ \<Rightarrow> Inl (JsonError, g')))"

section \<open>The simulation thread\<close>

text \<open>
  One pass through the body of the \<open>while\<close> loop of \<open>Game::logicRoutine\<close> (lines 143 to
  162), statement by statement. \<open>d1\<close> and \<open>d2\<close> are what the two calls of
  \<open>localTimer.getDeltaMs()\<close> return and \<open>d3\<close> is what \<open>globalTimer.getDeltaMs()\<close>
  returns: \<open>Timer\<close> is not part of the sources, so its readings are inputs.
\<close>

definition logicRoutine_body ::
  "'f float_ops \<Rightarrow> ('f, 'c, 'p, 'i, 'v) collaborators \<Rightarrow> 'f \<Rightarrow> 'f \<Rightarrow> 'f \<Rightarrow>
   ('f, 'c, 'i, 'v, 'r) game \<Rightarrow> ('f, 'c, 'i, 'v, 'r) game" where
  "logicRoutine_body F X d1 d2 d3 g =
     (let st = singleThread g;
          a = lv_get (acceleration g);
          g1 = g\<lparr>particlesCloud := Cloud_update X a (flit F 0.01) st (particlesCloud g),
                 events := events g @ [CloudUpdate a (flit F 0.01) st]\<rparr>;
          g2 = g1\<lparr>pTime := fadd F (pTime g1) d1\<rparr>;
          generated = Isosurface_generateMesh X (Cloud_getParticles X (particlesCloud g2))
                        (radius X) st (isosurface g2);
          g3 = g2\<lparr>isosurface := snd generated,
                  mesh := db_swap (fst generated) (mesh g2),
                  events := events g2 @ [MeshSwap (fst generated)]\<rparr>;
          g4 = g3\<lparr>rTime := fadd F (rTime g3) d2\<rparr>;
          g5 = g4\<lparr>frames := frames g4 + 1\<rparr>;
          g6 = g5\<lparr>elapsed := fadd F (elapsed g5) d3\<rparr>
      in if fge F (elapsed g6) (flit F 1000)
         then g6\<lparr>events := events g6 @
                       [Info (fdiv F (pTime g6) (float_of_size_t F (frames g6)))
                             (fdiv F (rTime g6) (float_of_size_t F (frames g6)))],
                 frames := 0,
                 elapsed := flit F 0,
                 pTime := flit F 0,
                 rTime := flit F 0\<rparr>
         else g6)"

text \<open>
  One step of the simulation thread. A thread that has just been created initialises
  the locals of \<open>logicRoutine\<close> (lines 127 to 129) and arrives at the loop test; at the
  loop test it reads \<open>alive\<close> (line 131) and either enters the body or returns; inside
  the body it runs the body and comes back to the loop test. A thread that does not
  exist or has returned does nothing.
\<close>

definition logicRoutine_step ::
  "'f float_ops \<Rightarrow> ('f, 'c, 'p, 'i, 'v) collaborators \<Rightarrow> 'f \<Rightarrow> 'f \<Rightarrow> 'f \<Rightarrow>
   ('f, 'c, 'i, 'v, 'r) game \<Rightarrow> ('f, 'c, 'i, 'v, 'r) game" where
  "logicRoutine_step F X d1 d2 d3 g =
     (case logicThread g of
        NotStarted \<Rightarrow> g
      | Spawned \<Rightarrow>
          g\<lparr>frames := 0, elapsed := flit F 0, pTime := flit F 0, rTime := flit F 0,
            logicThread := AtLoopHead\<rparr>
      | AtLoopHead \<Rightarrow>
          (if alive g
           then g\<lparr>events := events g @ [AliveLoad True], logicThread := InLoopBody\<rparr>
           else g\<lparr>events := events g @ [AliveLoad False], logicThread := Returned\<rparr>)
      | InLoopBody \<Rightarrow> (logicRoutine_body F X d1 d2 d3 g)\<lparr>logicThread := AtLoopHead\<rparr>
      | Returned \<Rightarrow> g)"

text \<open>\<open>Game::onSensorsEvent\<close> (lines 52 to 55).\<close>

definition onSensorsEvent ::
  "'f vec3 \<Rightarrow> ('f, 'c, 'i, 'v, 'r) game \<Rightarrow> ('f, 'c, 'i, 'v, 'r) game" where
  "onSensorsEvent a g = g\<lparr>acceleration := lv_push a (acceleration g)\<rparr>"

text \<open>
  \<open>Game::~Game\<close> (lines 39 to 43) is two statements. The first clears the flag. The
  second, \<open>logicThread.join()\<close>, returns once the thread has returned from
  \<open>logicRoutine\<close> and waits until then (\<open>None\<close>); joining a thread that was never
  created throws.
\<close>

definition destructor_store :: "('f, 'c, 'i, 'v, 'r) game \<Rightarrow> ('f, 'c, 'i, 'v, 'r) game" where
  "destructor_store g = g\<lparr>alive := False\<rparr>"

definition destructor_join :: "('f, 'c, 'i, 'v, 'r) game \<Rightarrow> (error + unit) option" where
  "destructor_join g =
     (case logicThread g of
        NotStarted \<Rightarrow> Some (Inl NotJoinable)
      | Returned \<Rightarrow> Some (Inr ())
      | _ \<Rightarrow> None)"

text \<open>
  The simulation thread runs beside its owner. \<open>alive\<close> and \<open>singleThread\<close> are read
  and written with \<open>load\<close> and \<open>store\<close>, so an execution is an interleaving: a list of
  actions, each a step of the simulation thread (with the timer readings it meets), a
  sensor event, or the destructor clearing the flag.
\<close>

datatype 'f action =
  LogicStep 'f 'f 'f
  | SensorsEvent "'f vec3"
  | DestructorStore

fun step ::
  "'f float_ops \<Rightarrow> ('f, 'c, 'p, 'i, 'v) collaborators \<Rightarrow> 'f action \<Rightarrow>
   ('f, 'c, 'i, 'v, 'r) game \<Rightarrow> ('f, 'c, 'i, 'v, 'r) game" where
  "step F X (LogicStep d1 d2 d3) g = logicRoutine_step F X d1 d2 d3 g"
| "step F X (SensorsEvent a) g = onSensorsEvent a g"
| "step F X DestructorStore g = destructor_store g"

fun run ::
  "'f float_ops \<Rightarrow> ('f, 'c, 'p, 'i, 'v) collaborators \<Rightarrow> 'f action list \<Rightarrow>
   ('f, 'c, 'i, 'v, 'r) game \<Rightarrow> ('f, 'c, 'i, 'v, 'r) game" where
  "run F X [] g = g"
| "run F X (a # as) g = run F X as (step F X a g)"

text \<open>
  The shape of the calls a simulation thread makes: any number of complete iterations,
  each beginning with a read of \<open>alive\<close> that returned true, followed by the update,
  the publication and possibly the log; then at most one more read of \<open>alive\<close>, after
  which nothing follows.
\<close>

fun loop_trace :: "('f, 'v) event list \<Rightarrow> bool" where
  "loop_trace [] = True"
| "loop_trace [AliveLoad b] = True"
| "loop_trace (AliveLoad True # CloudUpdate a d s # MeshSwap m # Info p r # es) = loop_trace es"
| "loop_trace (AliveLoad True # CloudUpdate a d s # MeshSwap m # es) = loop_trace es"
| "loop_trace es = False"

text \<open>The publications among the calls made, oldest first.\<close>

fun swaps :: "('f, 'v) event list \<Rightarrow> 'v list list" where
  "swaps [] = []"
| "swaps (MeshSwap m # es) = m # swaps es"
| "swaps (e # es) = swaps es"

text \<open>The time steps passed to \<open>particlesCloud.update\<close>, and the accelerations.\<close>

fun update_steps :: "('f, 'v) event list \<Rightarrow> 'f list" where
  "update_steps [] = []"
| "update_steps (CloudUpdate a d s # es) = d # update_steps es"
| "update_steps (e # es) = update_steps es"

text \<open>The vector of the last sensor event of a schedule, if it has one.\<close>

fun last_sensors_event :: "'f action list \<Rightarrow> 'f vec3 option" where
  "last_sensors_event [] = None"
| "last_sensors_event (SensorsEvent a # as) =
     (case last_sensors_event as of None \<Rightarrow> Some a | Some b \<Rightarrow> Some b)"
| "last_sensors_event (x # as) = last_sensors_event as"

text \<open>
  Consecutive passes through the loop body, one for each triple of timer readings: what
  the thread does while every read of \<open>alive\<close> returns true.
\<close>

fun logicRoutine_iterations ::
  "'f float_ops \<Rightarrow> ('f, 'c, 'p, 'i, 'v) collaborators \<Rightarrow> ('f \<times> 'f \<times> 'f) list \<Rightarrow>
   ('f, 'c, 'i, 'v, 'r) game \<Rightarrow> ('f, 'c, 'i, 'v, 'r) game" where
  "logicRoutine_iterations F X [] g = g"
| "logicRoutine_iterations F X (d # ds) g =
     logicRoutine_iterations F X ds (logicRoutine_body F X (fst d) (fst (snd d)) (snd (snd d)) g)"

text \<open>The pairs of averages logged among the calls made, oldest first.\<close>

fun infos :: "('f, 'v) event list \<Rightarrow> ('f \<times> 'f) list" where
  "infos [] = []"
| "infos (Info p r # es) = (p, r) # infos es"
| "infos (e # es) = infos es"

text \<open>
  The periodic log as the design describes it, for comparison with the loop. \<open>fsum\<close>
  adds up a list of floats from \<open>0.0f\<close>, left to right. \<open>periodic_log F cur ds\<close> is the
  list of logs for the timer readings \<open>ds\<close>, when \<open>cur\<close> holds the readings of the
  iterations since the last log: each iteration joins the current interval; once the
  elapsed time accumulated over the interval has reached 1000 ms, one log is emitted
  with the interval's accumulated physics time and render-preparation time, each
  divided by the number of iterations of the interval, and a new interval begins.
\<close>

definition fsum :: "'f float_ops \<Rightarrow> 'f list \<Rightarrow> 'f" where
  "fsum F xs = foldl (fadd F) (flit F 0) xs"

fun periodic_log :: "'f float_ops \<Rightarrow> ('f \<times> 'f \<times> 'f) list \<Rightarrow> ('f \<times> 'f \<times> 'f) list \<Rightarrow> ('f \<times> 'f) list" where
  "periodic_log F cur [] = []"
| "periodic_log F cur (d # ds) =
     (if fge F (fsum F (map (\<lambda>t. snd (snd t)) (cur @ [d]))) (flit F 1000)
      then (fdiv F (fsum F (map fst (cur @ [d]))) (float_of_size_t F (word_of_nat (length (cur @ [d])))),
            fdiv F (fsum F (map (\<lambda>t. fst (snd t)) (cur @ [d]))) (float_of_size_t F (word_of_nat (length (cur @ [d])))))
           # periodic_log F [] ds
      else periodic_log F (cur @ [d]) ds)"

text \<open>The readings of the iterations since the last log, given those before \<open>ds\<close>.\<close>

fun current_interval :: "'f float_ops \<Rightarrow> ('f \<times> 'f \<times> 'f) list \<Rightarrow> ('f \<times> 'f \<times> 'f) list \<Rightarrow> ('f \<times> 'f \<times> 'f) list" where
  "current_interval F cur [] = cur"
| "current_interval F cur (d # ds) =
     (if fge F (fsum F (map (\<lambda>t. snd (snd t)) (cur @ [d]))) (flit F 1000)
      then current_interval F [] ds
      else current_interval F (cur @ [d]) ds)"

section \<open>Presentation\<close>

text \<open>
  The OpenGL wrappers (\<open>Buffer\<close>, \<open>setVertexFormat\<close>, \<open>ShaderProgram\<close>, \<open>Mat4Uniform\<close>,
  \<open>setClearColor\<close>, \<open>clear\<close>, \<open>draw\<close>) are not part of the sources. Each call that
  \<open>presentScene\<close> makes on the graphics context is recorded, in order, with its
  arguments. \<open>'b\<close> is \<open>gl::Buffer\<close>, \<open>'s\<close> is \<open>gl::ShaderProgram\<close>, \<open>'m\<close> is \<open>glm::mat4\<close> and
  \<open>'k\<close> is the camera.
\<close>

datatype attrib_type = AttribFloat
datatype gl_capability = GL_DEPTH_TEST
datatype clear_mode = ClearModeColor | ClearModeDepth
datatype draw_mode = DrawTriangles

datatype ('f, 'v, 'b, 's, 'm) gl_call =
  BufferCreate "'v list"
  | BufferBind 'b
  | BufferWrite 'b size_t "'v list"
  | SetVertexFormat "(nat \<times> size_t \<times> attrib_type) list"
  | ProgramUse 's
  | UniformSet 's string 'm
  | GlEnable gl_capability
  | SetClearColor 'f 'f 'f 'f
  | Clear "clear_mode list"
  | Draw draw_mode size_t

record ('f, 'v, 'b, 's, 'm, 'k) presentation =
  surfaceVertices :: 'b
  shaderProgram :: 's
  projection :: 'm
  camera :: 'k
  gl_calls :: "('f, 'v, 'b, 's, 'm) gl_call list"

text \<open>
  What \<open>presentScene\<close> needs of the wrappers: \<open>sizeof(Isosurface::MeshVertex)\<close>, the
  buffer's \<open>operator bool\<close>, \<open>getSize\<close>, its constructor from a mesh and \<open>write\<close>, and
  the matrix \<open>camera.getView() * glm::translate(glm::mat4(1.f), -boxSize * 0.5f)\<close>.
\<close>

record ('f, 'v, 'b, 'm, 'k) gl_collaborators =
  sizeof_MeshVertex :: size_t
  Buffer_valid :: "'b \<Rightarrow> bool"
  Buffer_getSize :: "'b \<Rightarrow> size_t"
  Buffer_new :: "'v list \<Rightarrow> 'b"
  Buffer_write :: "size_t \<Rightarrow> 'v list \<Rightarrow> 'b \<Rightarrow> 'b"
  modelview :: "'k \<Rightarrow> 'f vec3 \<Rightarrow> 'm"

text \<open>\<open>glm::vec3(v)\<close> for an integer vector \<open>v\<close> converts each component.\<close>

definition vec3_of_ivec3 :: "'f float_ops \<Rightarrow> int32_t vec3 \<Rightarrow> 'f vec3" where
  "vec3_of_ivec3 F v =
     vec3 (float_of_int32 F (vec3_x v)) (float_of_int32 F (vec3_y v)) (float_of_int32 F (vec3_z v))"

text \<open>
  \<open>Game::presentScene\<close> (lines 88 to 123). \<open>localMesh.size()\<close> is the length of the
  published mesh; the product with \<open>sizeof\<close> is a \<open>size_t\<close> product.
\<close>

definition presentScene ::
  "'f float_ops \<Rightarrow> ('f, 'c, 'p, 'i, 'v) collaborators \<Rightarrow> ('f, 'v, 'b, 'm, 'k) gl_collaborators \<Rightarrow>
   ('f, 'c, 'i, 'v, ('f, 'v, 'b, 's, 'm, 'k) presentation) game \<Rightarrow>
   ('f, 'c, 'i, 'v, ('f, 'v, 'b, 's, 'm, 'k) presentation) game" where
  "presentScene F X G g =
     (let boxSize = vec3_of_ivec3 F (ivec3_add (gridSize g) (ivec3_splat (margin X)));
          localMesh = db_get (mesh g)
      in if length localMesh = 0 then g
         else
           let r = render g;
               r1 = (if \<not> Buffer_valid G (surfaceVertices r) \<or>
                        Buffer_getSize G (surfaceVertices r)
                          < word_of_nat (length localMesh) * sizeof_MeshVertex G
                     then r\<lparr>surfaceVertices := Buffer_new G localMesh,
                            gl_calls := gl_calls r @ [BufferCreate localMesh]\<rparr>
                     else r\<lparr>surfaceVertices := Buffer_write G 0 localMesh (surfaceVertices r),
                            gl_calls := gl_calls r @
                              [BufferBind (surfaceVertices r),
                               BufferWrite (surfaceVertices r) 0 localMesh]\<rparr>);
               r2 = r1\<lparr>gl_calls := gl_calls r1 @
                      [BufferBind (surfaceVertices r1),
                       SetVertexFormat
                         [(3, sizeof_MeshVertex G, AttribFloat), (3, sizeof_MeshVertex G, AttribFloat)],
                       ProgramUse (shaderProgram r1),
                       UniformSet (shaderProgram r1) ''in_projection'' (projection r1),
                       UniformSet (shaderProgram r1) ''in_modelview'' (modelview G (camera r1) boxSize),
                       GlEnable GL_DEPTH_TEST,
                       SetClearColor (flit F 0.5) (flit F 0.6) (flit F 0.4) (flit F 1),
                       Clear [ClearModeColor, ClearModeDepth],
                       Draw DrawTriangles (word_of_nat (length localMesh))]\<rparr>
           in g\<lparr>render := r2\<rparr>)"

text \<open>\<open>Game::update\<close> (lines 45 to 50) calls \<open>presentScene\<close> and nothing else.\<close>

definition update ::
  "'f float_ops \<Rightarrow> ('f, 'c, 'p, 'i, 'v) collaborators \<Rightarrow> ('f, 'v, 'b, 'm, 'k) gl_collaborators \<Rightarrow>
   ('f, 'c, 'i, 'v, ('f, 'v, 'b, 's, 'm, 'k) presentation) game \<Rightarrow>
   ('f, 'c, 'i, 'v, ('f, 'v, 'b, 's, 'm, 'k) presentation) game" where
  "update F X G g = presentScene F X G g"

section \<open>The classes of physics.h\<close>

definition DEFAULT_CELL_CAPACITY :: nat where
  "DEFAULT_CELL_CAPACITY = 32"

text \<open>
  \<open>class GridCell\<close> (lines 40 to 55): \<open>count\<close> and the array \<open>particles\<close> of
  \<open>DEFAULT_CELL_CAPACITY\<close> pointers (\<open>'a\<close> is \<open>Particle *\<close>; an entry that was never
  written is \<open>None\<close>).
\<close>

record 'a GridCell =
  count :: size_t
  particles :: "'a option list"

text \<open>
  Modelled from the spec: the bodies of \<open>GridCell::GridCell\<close>, \<open>GridCell::push\<close> and
  \<open>GridCell::clear\<close>, which physics.h declares and no source file defines. Section 3:
  a cell is a bounded ordered sequence of references, cleared and refilled every step.
  Section 4.2: \<open>push\<close> appends into the bucket, and if the bucket is at capacity the push
  is dropped; \<open>clear\<close> resets the count to zero and keeps the storage.
\<close>

definition GridCell_new :: "'a GridCell" where
  "GridCell_new = \<lparr>count = 0, particles = replicate DEFAULT_CELL_CAPACITY None\<rparr>"

definition GridCell_push :: "'a \<Rightarrow> 'a GridCell \<Rightarrow> 'a GridCell" where
  "GridCell_push particle c =
     (if unat (count c) < DEFAULT_CELL_CAPACITY
      then c\<lparr>particles := (particles c)[unat (count c) := Some particle], count := count c + 1\<rparr>
      else c)"

definition GridCell_clear :: "'a GridCell \<Rightarrow> 'a GridCell" where
  "GridCell_clear c = c\<lparr>count := 0\<rparr>"

definition getCount :: "'a GridCell \<Rightarrow> size_t" where
  "getCount c = count c"

text \<open>The life of a cell: it is constructed, then pushed into and cleared in any order.\<close>

datatype 'a cell_op = Push 'a | ClearCell

fun cell_apply :: "'a GridCell \<Rightarrow> 'a cell_op \<Rightarrow> 'a GridCell" where
  "cell_apply c (Push particle) = GridCell_push particle c"
| "cell_apply c ClearCell = GridCell_clear c"

definition cell_after :: "'a cell_op list \<Rightarrow> 'a GridCell" where
  "cell_after ops = foldl cell_apply GridCell_new ops"

text \<open>The pushes of a history since its last clear.\<close>

fun pushed_since_clear :: "'a list \<Rightarrow> 'a cell_op list \<Rightarrow> 'a list" where
  "pushed_since_clear acc [] = acc"
| "pushed_since_clear acc (Push particle # ops) = pushed_since_clear (acc @ [particle]) ops"
| "pushed_since_clear acc (ClearCell # ops) = pushed_since_clear [] ops"

section \<open>Concrete values on which the theorems are exercised\<close>

text \<open>
  Floats read as exact rationals. The collaborators are replaced by ones that keep what
  they were called with: the cloud is the list of the \<open>update\<close> calls it received, a
  particle is a number, the isosurface counts the meshes it generated, and a mesh vertex
  is a number.
\<close>

definition exact_floats :: "rat float_ops" where
  "exact_floats =
     \<lparr>flit = (\<lambda>q. q), fadd = (+), fmul = (*), fdiv = (/), fge = (\<ge>),
      float_of_size_t = (\<lambda>w. of_nat (unat w)),
      float_of_int32 = (\<lambda>w. of_int (sint w)),
      int32_of_float = (\<lambda>q. word_of_int (if q < 0 then \<lceil>q\<rceil> else \<lfloor>q\<rfloor>))\<rparr>"

definition recording_collaborators ::
  "(rat, (rat vec3 \<times> rat \<times> bool) list, nat, nat, nat) collaborators" where
  "recording_collaborators =
     \<lparr>margin = 2, radius = 1,
      Cloud_new = (\<lambda>size n. []),
      Cloud_update = (\<lambda>a dt st c. c @ [(a, dt, st)]),
      Cloud_getParticles = (\<lambda>c. [length c]),
      Isosurface_new = (\<lambda>size. 0),
      Isosurface_generateMesh = (\<lambda>ps r st i. ([i, i, i], Suc i))\<rparr>"

definition blank_game :: "'r \<Rightarrow> (rat, (rat vec3 \<times> rat \<times> bool) list, nat, nat, 'r) game" where
  "blank_game r =
     \<lparr>acceleration = LatestValue (vec3 0 0 0), alive = False, singleThread = False,
      gridSize = vec3 0 0 0, particlesCloud = [], isosurface = 0,
      mesh = \<lparr>slot0 = [], slot1 = [], active1 = False\<rparr>,
      logicThread = NotStarted, frames = 0, elapsed = 0, pTime = 0, rTime = 0,
      events = [], render = r\<rparr>"

text \<open>
  A buffer is the mesh it holds, valid when it holds one; vertices take 24 bytes; the
  matrix is left out.
\<close>

definition plain_gl :: "(rat, nat, nat list, unit, unit) gl_collaborators" where
  "plain_gl =
     \<lparr>sizeof_MeshVertex = 24,
      Buffer_valid = (\<lambda>b. b \<noteq> []),
      Buffer_getSize = (\<lambda>b. word_of_nat (length b) * 24),
      Buffer_new = (\<lambda>m. m),
      Buffer_write = (\<lambda>off m b. m @ drop (length m) b),
      modelview = (\<lambda>k box. ())\<rparr>"

definition blank_presentation :: "(rat, nat, nat list, unit, unit, unit) presentation" where
  "blank_presentation =
     \<lparr>surfaceVertices = [], shaderProgram = (), projection = (), camera = (), gl_calls = []\<rparr>"

text \<open>
  A simulation thread that has just been created in a freshly constructed game, and a
  schedule: the thread starts, reads the flag and runs one iteration; the destructor clears
  the flag; the thread reads the flag again; one more step is offered to it.
\<close>

definition spawned_game :: "(rat, (rat vec3 \<times> rat \<times> bool) list, nat, nat, unit) game" where
  "spawned_game = (Game_members exact_floats (blank_game ()))\<lparr>logicThread := Spawned\<rparr>"

definition example_schedule :: "rat action list" where
  "example_schedule =
     [LogicStep 0 0 0, LogicStep 0 0 0, LogicStep 9 7 16, DestructorStore,
      LogicStep 0 0 0, LogicStep 5 5 10]"

section \<open>Invariants\<close>

text \<open>Lists of calls that are whole iterations, with or without the log at the end.\<close>

inductive complete_iterations :: "('f, 'v) event list \<Rightarrow> bool" where
  no_iteration: "complete_iterations []"
| iteration:
    "complete_iterations es \<Longrightarrow>
     complete_iterations (AliveLoad True # CloudUpdate a d s # MeshSwap m # es)"
| iteration_logged:
    "complete_iterations es \<Longrightarrow>
     complete_iterations (AliveLoad True # CloudUpdate a d s # MeshSwap m # Info p r # es)"

text \<open>What the calls made so far look like at each point of the thread.\<close>

definition trace_inv :: "('f, 'c, 'i, 'v, 'r) game \<Rightarrow> bool" where
  "trace_inv g =
     (case logicThread g of
        InLoopBody \<Rightarrow> \<exists>es. events g = es @ [AliveLoad True] \<and> complete_iterations es
      | Returned \<Rightarrow> \<exists>es. events g = es @ [AliveLoad False] \<and> complete_iterations es
      | _ \<Rightarrow> complete_iterations (events g))"

text \<open>The locals agree with the readings of the iterations since the last log.\<close>

definition accumulated :: "'f float_ops \<Rightarrow> ('f \<times> 'f \<times> 'f) list \<Rightarrow> ('f, 'c, 'i, 'v, 'r) game \<Rightarrow> bool" where
  "accumulated F cur g =
     (frames g = word_of_nat (length cur) \<and>
      pTime g = fsum F (map fst cur) \<and>
      rTime g = fsum F (map (\<lambda>t. fst (snd t)) cur) \<and>
      elapsed g = fsum F (map (\<lambda>t. snd (snd t)) cur))"

text \<open>
  A cell agrees with the pushes \<open>acc\<close> made since it was last cleared: it holds the first
  \<open>DEFAULT_CELL_CAPACITY\<close> of them, in order.
\<close>

definition cell_holds :: "'a GridCell \<Rightarrow> 'a list \<Rightarrow> bool" where
  "cell_holds c acc =
     (unat (count c) = min DEFAULT_CELL_CAPACITY (length acc) \<and>
      length (particles c) = DEFAULT_CELL_CAPACITY \<and>
      take (unat (count c)) (particles c) = map Some (take DEFAULT_CELL_CAPACITY acc))"

section \<open>Start-up checks\<close>

text \<open>
  C1. \<open>initLogicThread\<close> called with a zero grid width or a zero particle count raises
  the assertion error at once and leaves every member as it was: no cloud has been built
  and the thread has not been created. With both arguments positive no assertion fires:
  the cloud is built for the given particle count and the thread is created. Constructing
  the game from a configuration with a zero grid width or a zero particle count fails
  with the assertion error, with no thread created and no call made by one.
\<close>

theorem zero_configuration_fails_fast:
  fixes g :: "('f, 'c, 'i, 'v, 'r) game"
  shows
  "(gridWidth = 0 \<or> particlesCount = 0 \<longrightarrow>
      initLogicThread F X surfaceSize gridWidth particlesCount g
        = Inl (AssertionFailed 0xd78eead8, g)) \<and>
   (0 < gridWidth \<and> 0 < particlesCount \<longrightarrow>
      (\<exists>g'. initLogicThread F X surfaceSize gridWidth particlesCount g = Inr g' \<and>
            logicThread g' = Spawned \<and>
            particlesCloud g' = Cloud_new X (gridSize g') particlesCount)) \<and>
   (cfg_physics_present cfg \<and> cfg_singleThread cfg = Some st \<and>
    cfg_gridWidth cfg = Some gridWidth \<and> cfg_particlesCount cfg = Some particlesCount \<and>
    (gridWidth = 0 \<or> particlesCount = 0) \<longrightarrow>
      (\<exists>g'. Game_new F X initRender cfg surfaceSize g = Inl (AssertionFailed 0xd78eead8, g') \<and>
            logicThread g' = NotStarted \<and> particlesCloud g' = particlesCloud g \<and>
            events g' = events g))"
proof -
  have zero: "initLogicThread F X surfaceSize gridWidth particlesCount h
        = Inl (AssertionFailed 0xd78eead8, h)"
    if "gridWidth = 0 \<or> particlesCount = 0" for h :: "('f, 'c, 'i, 'v, 'r) game"
    using that by (auto simp: initLogicThread_def assert_failed_def)
  have positive: "\<exists>g'. initLogicThread F X surfaceSize gridWidth particlesCount g = Inr g' \<and>
            logicThread g' = Spawned \<and>
            particlesCloud g' = Cloud_new X (gridSize g') particlesCount"
    if "0 < gridWidth \<and> 0 < particlesCount"
    using that by (simp add: initLogicThread_def assert_failed_def Let_def)
  have ctor: "\<exists>g'. Game_new F X initRender cfg surfaceSize g = Inl (AssertionFailed 0xd78eead8, g') \<and>
            logicThread g' = NotStarted \<and> particlesCloud g' = particlesCloud g \<and>
            events g' = events g"
    if "cfg_physics_present cfg \<and> cfg_singleThread cfg = Some st \<and>
        cfg_gridWidth cfg = Some gridWidth \<and> cfg_particlesCount cfg = Some particlesCount \<and>
        (gridWidth = 0 \<or> particlesCount = 0)"
    using that zero [of "(Game_members F g)\<lparr>singleThread := st\<rparr>"]
    by (simp add: Game_new_def Let_def Game_members_def)
  from zero [of g] positive ctor show ?thesis by blast
qed

theorem zero_configuration_fails_fast_witness:
  "initLogicThread exact_floats recording_collaborators (vec2 1080 1920) 0 4000 (blank_game ())
     = Inl (AssertionFailed 0xd78eead8, blank_game ()) \<and>
   initLogicThread exact_floats recording_collaborators (vec2 1080 1920) 24 0 (blank_game ())
     = Inl (AssertionFailed 0xd78eead8, blank_game ()) \<and>
   (\<exists>g'. initLogicThread exact_floats recording_collaborators (vec2 1080 1920) 24 4000 (blank_game ())
           = Inr g' \<and>
         logicThread g' = Spawned \<and>
         particlesCloud g' = Cloud_new recording_collaborators (gridSize g') 4000) \<and>
   (\<exists>g'. Game_new exact_floats recording_collaborators (\<lambda>r. r)
           \<lparr>cfg_physics_present = True, cfg_singleThread = Some True,
            cfg_gridWidth = Some 0, cfg_particlesCount = Some 4000\<rparr>
           (vec2 1080 1920) (blank_game ())
           = Inl (AssertionFailed 0xd78eead8, g') \<and>
         logicThread g' = NotStarted \<and> particlesCloud g' = particlesCloud (blank_game ()) \<and>
         events g' = events (blank_game ()))"
  using
    zero_configuration_fails_fast [of 0 4000 exact_floats recording_collaborators "vec2 1080 1920"
      "blank_game ()"
      "\<lparr>cfg_physics_present = True, cfg_singleThread = Some True,
        cfg_gridWidth = Some 0, cfg_particlesCount = Some 4000\<rparr>" True "\<lambda>r. r"]
    zero_configuration_fails_fast [of 24 0 exact_floats recording_collaborators "vec2 1080 1920"
      "blank_game ()"]
    zero_configuration_fails_fast [of 24 4000 exact_floats recording_collaborators "vec2 1080 1920"
      "blank_game ()"]
  by simp

section \<open>Shutdown\<close>

lemma complete_iterations_append:
  "complete_iterations xs \<Longrightarrow> complete_iterations ys \<Longrightarrow> complete_iterations (xs @ ys)"
  by (induction xs rule: complete_iterations.induct) (auto intro: complete_iterations.intros)

lemma complete_iterations_head:
  "complete_iterations es \<Longrightarrow> es = [] \<or> (\<exists>es'. es = AliveLoad True # es')"
  by (erule complete_iterations.cases) auto

lemma loop_trace_complete:
  "complete_iterations es \<Longrightarrow> loop_trace es"
proof (induction es rule: complete_iterations.induct)
  case (iteration es a d s m)
  from complete_iterations_head [OF iteration.hyps] iteration.IH show ?case by auto
qed auto

lemma loop_trace_complete_load:
  "complete_iterations es \<Longrightarrow> loop_trace (es @ [AliveLoad b])"
proof (induction es rule: complete_iterations.induct)
  case (iteration es a d s m)
  from complete_iterations_head [OF iteration.hyps] iteration.IH show ?case by auto
qed auto

lemma events_body:
  "\<exists>a d s m. events (logicRoutine_body F X d1 d2 d3 g) = events g @ [CloudUpdate a d s, MeshSwap m] \<or>
     (\<exists>p r. events (logicRoutine_body F X d1 d2 d3 g) = events g @ [CloudUpdate a d s, MeshSwap m, Info p r])"
  by (simp add: logicRoutine_body_def Let_def)

lemma trace_inv_logic:
  assumes "trace_inv g"
  shows "trace_inv (logicRoutine_step F X d1 d2 d3 g)"
proof (cases "logicThread g")
  case InLoopBody
  with assms obtain es where es: "events g = es @ [AliveLoad True]" "complete_iterations es"
    by (auto simp: trace_inv_def)
  from events_body [of F X d1 d2 d3 g] obtain a d s m where
    "events (logicRoutine_body F X d1 d2 d3 g) = events g @ [CloudUpdate a d s, MeshSwap m] \<or>
     (\<exists>p r. events (logicRoutine_body F X d1 d2 d3 g) = events g @ [CloudUpdate a d s, MeshSwap m, Info p r])"
    by blast
  then have "complete_iterations (events (logicRoutine_body F X d1 d2 d3 g))"
    using es
    by (auto intro!: complete_iterations_append [of es] complete_iterations.intros)
  with InLoopBody show ?thesis
    by (simp add: logicRoutine_step_def trace_inv_def)
qed (use assms in \<open>auto simp: logicRoutine_step_def trace_inv_def\<close>)

lemma trace_inv_cong:
  "logicThread g' = logicThread g \<Longrightarrow> events g' = events g \<Longrightarrow> trace_inv g' = trace_inv g"
  by (cases "logicThread g") (simp_all add: trace_inv_def)

lemma trace_inv_step: "trace_inv g \<Longrightarrow> trace_inv (step F X a g)"
proof (cases a)
  case (LogicStep d1 d2 d3)
  assume "trace_inv g"
  with LogicStep show ?thesis by (simp add: trace_inv_logic)
next
  case (SensorsEvent v)
  assume "trace_inv g"
  with SensorsEvent trace_inv_cong [of "onSensorsEvent v g" g] show ?thesis
    by (simp add: onSensorsEvent_def)
next
  case DestructorStore
  assume "trace_inv g"
  with DestructorStore trace_inv_cong [of "destructor_store g" g] show ?thesis
    by (simp add: destructor_store_def)
qed

lemma trace_inv_run: "trace_inv g \<Longrightarrow> trace_inv (run F X as g)"
  by (induction as arbitrary: g) (auto simp: trace_inv_step)

lemma trace_inv_loop_trace: "trace_inv g \<Longrightarrow> loop_trace (events g)"
  by (cases "logicThread g") (auto simp: trace_inv_def loop_trace_complete loop_trace_complete_load)

lemma run_append: "run F X (as @ bs) g = run F X bs (run F X as g)"
  by (induction as arbitrary: g) auto

lemma step_Returned:
  "logicThread g = Returned \<Longrightarrow>
   logicThread (step F X a g) = Returned \<and> events (step F X a g) = events g \<and> mesh (step F X a g) = mesh g"
  by (cases a) (auto simp: logicRoutine_step_def onSensorsEvent_def destructor_store_def)

lemma run_Returned:
  "logicThread g = Returned \<Longrightarrow>
   logicThread (run F X as g) = Returned \<and> events (run F X as g) = events g \<and> mesh (run F X as g) = mesh g"
proof (induction as arbitrary: g)
  case (Cons a as)
  from step_Returned [OF Cons.prems, of F X a] Cons.IH [of "step F X a g"] show ?case by simp
qed simp

lemma swaps_append: "swaps (xs @ ys) = swaps xs @ swaps ys"
  by (induction xs rule: swaps.induct) auto

lemma step_cleared:
  "\<not> alive g \<Longrightarrow> logicThread g \<noteq> InLoopBody \<Longrightarrow>
   \<not> alive (step F X a g) \<and> logicThread (step F X a g) \<noteq> InLoopBody \<and>
   swaps (events (step F X a g)) = swaps (events g) \<and> mesh (step F X a g) = mesh g"
  by (cases a; cases "logicThread g")
     (auto simp: logicRoutine_step_def onSensorsEvent_def destructor_store_def swaps_append)

lemma run_cleared:
  "\<not> alive g \<Longrightarrow> logicThread g \<noteq> InLoopBody \<Longrightarrow>
   swaps (events (run F X as g)) = swaps (events g) \<and> mesh (run F X as g) = mesh g"
proof (induction as arbitrary: g)
  case (Cons a as)
  from step_cleared [OF Cons.prems, of F X a] Cons.IH [of "step F X a g"] show ?case by simp
qed simp

lemma example_run_events:
  "events (run exact_floats recording_collaborators example_schedule spawned_game) =
     [AliveLoad True, CloudUpdate (vec3 0 (- 9.8) 0) 0.01 True, MeshSwap [0, 0, 0], AliveLoad False]"
  by (simp add: example_schedule_def spawned_game_def Game_members_def blank_game_def
      logicRoutine_step_def logicRoutine_body_def destructor_store_def Let_def
      exact_floats_def recording_collaborators_def lv_get_def db_swap_def)

text \<open>
  C3. In every interleaving of a freshly created simulation thread with sensor events and
  the destructor's clearing of the flag, the calls the thread makes are whole iterations,
  each opened by a read of the liveness flag that returned true, followed by at most one
  further read of the flag: the read that returns false is the thread's last call, so no
  mesh is published after it. Once the thread has returned, no continuation of the
  interleaving adds a call or changes the mesh double buffer; once the flag is cleared and
  the thread is not inside an iteration, no continuation publishes a mesh; and the
  destructor's join returns only when the thread has returned.
\<close>

theorem no_publication_after_cleared_flag:
  assumes "logicThread g = Spawned" and "events g = []"
  shows "loop_trace (events (run F X as g)) \<and>
         (logicThread (run F X as g) = Returned \<longrightarrow>
            events (run F X (as @ bs) g) = events (run F X as g) \<and>
            mesh (run F X (as @ bs) g) = mesh (run F X as g)) \<and>
         (\<not> alive (run F X as g) \<and> logicThread (run F X as g) \<noteq> InLoopBody \<longrightarrow>
            swaps (events (run F X (as @ bs) g)) = swaps (events (run F X as g)) \<and>
            mesh (run F X (as @ bs) g) = mesh (run F X as g)) \<and>
         (destructor_join (run F X as g) = Some (Inr ()) \<longrightarrow>
            logicThread (run F X as g) = Returned)"
proof -
  from assms have "trace_inv g"
    by (simp add: trace_inv_def complete_iterations.intros)
  then have "loop_trace (events (run F X as g))"
    by (intro trace_inv_loop_trace trace_inv_run)
  moreover have "destructor_join (run F X as g) = Some (Inr ()) \<longrightarrow>
            logicThread (run F X as g) = Returned"
    by (auto simp: destructor_join_def split: thread_state.splits)
  ultimately show ?thesis
    using run_Returned [of "run F X as g" F X bs] run_cleared [of "run F X as g" F X bs]
    by (simp add: run_append)
qed

theorem no_publication_after_cleared_flag_witness:
  "loop_trace (events (run exact_floats recording_collaborators example_schedule spawned_game)) \<and>
   events (run exact_floats recording_collaborators example_schedule spawned_game) =
     [AliveLoad True, CloudUpdate (vec3 0 (- 9.8) 0) 0.01 True, MeshSwap [0, 0, 0], AliveLoad False] \<and>
   logicThread (run exact_floats recording_collaborators example_schedule spawned_game) = Returned \<and>
   destructor_join (run exact_floats recording_collaborators example_schedule spawned_game)
     = Some (Inr ()) \<and>
   events (run exact_floats recording_collaborators
             (example_schedule @ [LogicStep 1 1 1, LogicStep 2 2 2]) spawned_game) =
     events (run exact_floats recording_collaborators example_schedule spawned_game)"
proof -
  have spawned: "logicThread spawned_game = Spawned" "events spawned_game = []"
    by (simp_all add: spawned_game_def Game_members_def blank_game_def)
  have returned:
    "logicThread (run exact_floats recording_collaborators example_schedule spawned_game) = Returned"
    by (simp add: example_schedule_def spawned_game_def Game_members_def blank_game_def
        logicRoutine_step_def logicRoutine_body_def destructor_store_def Let_def
        exact_floats_def recording_collaborators_def lv_get_def db_swap_def)
  from no_publication_after_cleared_flag [OF spawned, of exact_floats recording_collaborators
      example_schedule "[LogicStep 1 1 1, LogicStep 2 2 2]"] returned example_run_events
  show ?thesis by (simp add: destructor_join_def)
qed

section \<open>The acceleration input\<close>

lemma acceleration_logicRoutine_step:
  "acceleration (logicRoutine_step F X d1 d2 d3 g) = acceleration g"
  by (cases "logicThread g") (simp_all add: logicRoutine_step_def logicRoutine_body_def Let_def)

lemma acceleration_run:
  "lv_get (acceleration (run F X as g)) =
     (case last_sensors_event as of None \<Rightarrow> lv_get (acceleration g) | Some v \<Rightarrow> v)"
proof (induction as arbitrary: g)
  case Nil
  show ?case by simp
next
  case (Cons a as)
  show ?case
  proof (cases a)
    case (LogicStep d1 d2 d3)
    with Cons [of "logicRoutine_step F X d1 d2 d3 g"] show ?thesis
      by (simp add: acceleration_logicRoutine_step split: option.splits)
  next
    case (SensorsEvent v)
    with Cons [of "onSensorsEvent v g"] show ?thesis
      by (simp add: onSensorsEvent_def lv_push_def lv_get_def split: option.splits)
  next
    case DestructorStore
    with Cons [of "destructor_store g"] show ?thesis
      by (simp add: destructor_store_def split: option.splits)
  qed
qed

lemma acceleration_initLogicThread:
  "initLogicThread F X surfaceSize gridWidth particlesCount g = Inr g' \<Longrightarrow>
   acceleration g' = acceleration g"
  by (auto simp: initLogicThread_def Let_def split: option.splits)

lemma acceleration_Game_new:
  assumes "Game_new F X initRender cfg surfaceSize g0 = Inr g"
  shows "acceleration g = LatestValue (vec3 (flit F 0) (flit F (- 9.8)) (flit F 0))"
proof -
  from assms obtain st gridWidth particlesCount g' where
    init: "initLogicThread F X surfaceSize gridWidth particlesCount
             ((Game_members F g0)\<lparr>singleThread := st\<rparr>) = Inr g'"
    and g: "g = g'\<lparr>render := initRender (render g')\<rparr>"
    by (auto simp: Game_new_def Let_def split: if_splits option.splits sum.splits)
  from acceleration_initLogicThread [OF init] g show ?thesis
    by (simp add: Game_members_def)
qed

text \<open>
  C7. The acceleration slot holds (0, -9.8, 0) after the member initialisers and still
  after a successful construction, that is before any sensor event; \<open>onSensorsEvent v\<close>
  leaves \<open>v\<close> in the slot; after any interleaving the slot holds the vector of the last
  sensor event, or what it held before when there was none; and a pass through the loop
  body calls \<open>particlesCloud.update\<close> with the value the slot holds at that moment as
  its first argument.
\<close>

theorem acceleration_slot_latest_value:
  "lv_get (acceleration (Game_members F g0)) = vec3 (flit F 0) (flit F (- 9.8)) (flit F 0) \<and>
   (Game_new F X initRender cfg surfaceSize g0 = Inr g1 \<longrightarrow>
      lv_get (acceleration g1) = vec3 (flit F 0) (flit F (- 9.8)) (flit F 0)) \<and>
   lv_get (acceleration (onSensorsEvent v g)) = v \<and>
   lv_get (acceleration (run F X as g)) =
     (case last_sensors_event as of None \<Rightarrow> lv_get (acceleration g) | Some w \<Rightarrow> w) \<and>
   (logicThread g = InLoopBody \<longrightarrow>
      particlesCloud (logicRoutine_step F X d1 d2 d3 g) =
        Cloud_update X (lv_get (acceleration g)) (flit F 0.01) (singleThread g) (particlesCloud g) \<and>
      take (Suc (length (events g))) (events (logicRoutine_step F X d1 d2 d3 g)) =
        events g @ [CloudUpdate (lv_get (acceleration g)) (flit F 0.01) (singleThread g)])"
proof -
  have "lv_get (acceleration (Game_members F g0)) = vec3 (flit F 0) (flit F (- 9.8)) (flit F 0)"
    by (simp add: Game_members_def lv_get_def)
  moreover have "Game_new F X initRender cfg surfaceSize g0 = Inr g1 \<longrightarrow>
      lv_get (acceleration g1) = vec3 (flit F 0) (flit F (- 9.8)) (flit F 0)"
    by (auto simp: lv_get_def dest: acceleration_Game_new)
  moreover have "lv_get (acceleration (onSensorsEvent v g)) = v"
    by (simp add: onSensorsEvent_def lv_push_def lv_get_def)
  moreover have "logicThread g = InLoopBody \<longrightarrow>
      particlesCloud (logicRoutine_step F X d1 d2 d3 g) =
        Cloud_update X (lv_get (acceleration g)) (flit F 0.01) (singleThread g) (particlesCloud g) \<and>
      take (Suc (length (events g))) (events (logicRoutine_step F X d1 d2 d3 g)) =
        events g @ [CloudUpdate (lv_get (acceleration g)) (flit F 0.01) (singleThread g)]"
    by (simp add: logicRoutine_step_def logicRoutine_body_def Let_def)
  ultimately show ?thesis
    using acceleration_run [of F X as g] by simp
qed

theorem acceleration_slot_latest_value_witness:
  "lv_get (acceleration (Game_members exact_floats (blank_game ()))) = vec3 0 (- 9.8) 0 \<and>
   (\<exists>g1. Game_new exact_floats recording_collaborators (\<lambda>r. r)
            \<lparr>cfg_physics_present = True, cfg_singleThread = Some True,
             cfg_gridWidth = Some 24, cfg_particlesCount = Some 4000\<rparr>
            (vec2 1080 1920) (blank_game ()) = Inr g1 \<and>
         lv_get (acceleration g1) = vec3 0 (- 9.8) 0) \<and>
   lv_get (acceleration (onSensorsEvent (vec3 1 2 3) spawned_game)) = vec3 1 2 3 \<and>
   lv_get (acceleration
     (run exact_floats recording_collaborators
        [SensorsEvent (vec3 1 2 3), LogicStep 0 0 0, SensorsEvent (vec3 4 5 6), LogicStep 0 0 0]
        spawned_game)) = vec3 4 5 6 \<and>
   lv_get (acceleration
     (run exact_floats recording_collaborators [LogicStep 0 0 0, LogicStep 0 0 0] spawned_game))
     = vec3 0 (- 9.8) 0 \<and>
   particlesCloud (logicRoutine_step exact_floats recording_collaborators 3 4 5
     (onSensorsEvent (vec3 1 2 3) (spawned_game\<lparr>logicThread := InLoopBody\<rparr>)))
     = [(vec3 1 2 3, 0.01, True)]"
proof -
  let ?cfg = "\<lparr>cfg_physics_present = True, cfg_singleThread = Some True,
             cfg_gridWidth = Some (24 :: size_t), cfg_particlesCount = Some (4000 :: size_t)\<rparr>"
  let ?g = "onSensorsEvent (vec3 1 2 3) (spawned_game\<lparr>logicThread := InLoopBody\<rparr>)"
  obtain g1 where g1: "Game_new exact_floats recording_collaborators (\<lambda>r. r) ?cfg
            (vec2 1080 1920) (blank_game ()) = Inr g1"
    by (simp add: Game_new_def initLogicThread_def assert_failed_def Let_def)
  have body: "logicThread ?g = InLoopBody"
    by (simp add: onSensorsEvent_def)
  have cloud: "particlesCloud ?g = []" "singleThread ?g = True"
    by (simp_all add: onSensorsEvent_def spawned_game_def Game_members_def blank_game_def)
  note slot_thm = acceleration_slot_latest_value [where F = exact_floats and X = recording_collaborators
      and ?g0.0 = "blank_game ()" and initRender = "\<lambda>r. r" and cfg = ?cfg
      and surfaceSize = "vec2 1080 1920" and ?g1.0 = g1 and v = "vec3 1 2 3"]
  from slot_thm [where g = spawned_game and as = "[SensorsEvent (vec3 1 2 3), LogicStep 0 0 0, SensorsEvent (vec3 4 5 6), LogicStep 0 0 0]"]
    slot_thm [where g = spawned_game and as = "[LogicStep 0 0 0, LogicStep 0 0 0]"]
    slot_thm [where g = ?g and ?d1.0 = 3 and ?d2.0 = 4 and ?d3.0 = 5 and as = "[]"]
    g1 body cloud
  show ?thesis
    by (simp add: exact_floats_def recording_collaborators_def spawned_game_def Game_members_def
        lv_get_def onSensorsEvent_def lv_push_def)
qed

section \<open>The time step\<close>

lemma update_steps_append: "update_steps (xs @ ys) = update_steps xs @ update_steps ys"
  by (induction xs rule: update_steps.induct) auto

lemma update_steps_body:
  "update_steps (events (logicRoutine_body F X d1 d2 d3 g)) = update_steps (events g) @ [flit F 0.01]"
  by (simp add: logicRoutine_body_def Let_def update_steps_append)

lemma update_steps_step:
  "update_steps (events (step F X a g)) = update_steps (events g) \<or>
   update_steps (events (step F X a g)) = update_steps (events g) @ [flit F 0.01]"
proof (cases a)
  case (LogicStep d1 d2 d3)
  then show ?thesis
    by (cases "logicThread g")
       (simp_all add: logicRoutine_step_def update_steps_body update_steps_append)
qed (simp_all add: onSensorsEvent_def destructor_store_def)

lemma update_steps_run:
  "\<exists>n\<le>length as. update_steps (events (run F X as g)) = update_steps (events g) @ replicate n (flit F 0.01)"
proof (induction as arbitrary: g)
  case Nil
  show ?case by simp
next
  case (Cons a as)
  from Cons [of "step F X a g"] obtain n where n: "n \<le> length as"
    "update_steps (events (run F X as (step F X a g))) =
       update_steps (events (step F X a g)) @ replicate n (flit F 0.01)"
    by blast
  from update_steps_step [of F X a g] show ?case
  proof
    assume "update_steps (events (step F X a g)) = update_steps (events g)"
    with n have "n \<le> length (a # as) \<and> update_steps (events (run F X (a # as) g)) =
        update_steps (events g) @ replicate n (flit F 0.01)"
      by simp
    then show ?thesis by blast
  next
    assume "update_steps (events (step F X a g)) = update_steps (events g) @ [flit F 0.01]"
    with n have "Suc n \<le> length (a # as) \<and> update_steps (events (run F X (a # as) g)) =
        update_steps (events g) @ replicate (Suc n) (flit F 0.01)"
      by simp
    then show ?thesis by blast
  qed
qed

lemma update_steps_iterations:
  "update_steps (events (logicRoutine_iterations F X ds g)) =
     update_steps (events g) @ replicate (length ds) (flit F 0.01)"
proof (induction ds arbitrary: g)
  case (Cons d ds)
  show ?case
    by (simp add: Cons update_steps_body replicate_app_Cons_same)
qed simp

text \<open>
  C9. Every pass through the loop body calls \<open>particlesCloud.update\<close> with the time step
  0.01, whatever the three timer readings of that pass are: the call log of one pass, of
  any number of consecutive passes and of any interleaving gains only updates whose time
  step is the literal 0.01.
\<close>

theorem update_time_step_constant:
  "particlesCloud (logicRoutine_body F X d1 d2 d3 g) =
     Cloud_update X (lv_get (acceleration g)) (flit F 0.01) (singleThread g) (particlesCloud g) \<and>
   update_steps (events (logicRoutine_body F X d1 d2 d3 g)) = update_steps (events g) @ [flit F 0.01] \<and>
   update_steps (events (logicRoutine_iterations F X ds g)) =
     update_steps (events g) @ replicate (length ds) (flit F 0.01) \<and>
   (\<exists>n\<le>length as. update_steps (events (run F X as g)) =
      update_steps (events g) @ replicate n (flit F 0.01))"
proof -
  have "particlesCloud (logicRoutine_body F X d1 d2 d3 g) =
     Cloud_update X (lv_get (acceleration g)) (flit F 0.01) (singleThread g) (particlesCloud g)"
    by (simp add: logicRoutine_body_def Let_def)
  with update_steps_body [of F X d1 d2 d3 g] update_steps_iterations [of F X ds g]
    update_steps_run [of as F X g]
  show ?thesis by blast
qed

theorem update_time_step_constant_witness:
  "particlesCloud (logicRoutine_body exact_floats recording_collaborators 2 3 5 spawned_game)
     = [(vec3 0 (- 9.8) 0, 0.01, True)] \<and>
   update_steps (events (logicRoutine_iterations exact_floats recording_collaborators
      [(2, 3, 5), (400, 500, 1100), (0, 0, 0)] spawned_game)) = [0.01, 0.01, 0.01]"
  using update_time_step_constant [of exact_floats recording_collaborators 2 3 5 spawned_game
      "[(2, 3, 5), (400, 500, 1100), (0, 0, 0)]" "[]"]
  by (simp add: exact_floats_def recording_collaborators_def spawned_game_def Game_members_def
      blank_game_def lv_get_def numeral_3_eq_3)

section \<open>The timing log\<close>

lemma infos_append: "infos (xs @ ys) = infos xs @ infos ys"
  by (induction xs rule: infos.induct) auto

lemma fsum_snoc: "fsum F (xs @ [x]) = fadd F (fsum F xs) x"
  by (simp add: fsum_def)

lemma fsum_Nil: "fsum F [] = flit F 0"
  by (simp add: fsum_def)

lemma body_logs:
  assumes "fge F (fadd F (elapsed g) d3) (flit F 1000)"
  shows "infos (events (logicRoutine_body F X d1 d2 d3 g)) =
           infos (events g) @
             [(fdiv F (fadd F (pTime g) d1) (float_of_size_t F (frames g + 1)),
               fdiv F (fadd F (rTime g) d2) (float_of_size_t F (frames g + 1)))]"
    and "frames (logicRoutine_body F X d1 d2 d3 g) = 0"
    and "elapsed (logicRoutine_body F X d1 d2 d3 g) = flit F 0"
    and "pTime (logicRoutine_body F X d1 d2 d3 g) = flit F 0"
    and "rTime (logicRoutine_body F X d1 d2 d3 g) = flit F 0"
  using assms by (simp_all add: logicRoutine_body_def Let_def infos_append)

lemma body_accumulates:
  assumes "\<not> fge F (fadd F (elapsed g) d3) (flit F 1000)"
  shows "infos (events (logicRoutine_body F X d1 d2 d3 g)) = infos (events g)"
    and "frames (logicRoutine_body F X d1 d2 d3 g) = frames g + 1"
    and "elapsed (logicRoutine_body F X d1 d2 d3 g) = fadd F (elapsed g) d3"
    and "pTime (logicRoutine_body F X d1 d2 d3 g) = fadd F (pTime g) d1"
    and "rTime (logicRoutine_body F X d1 d2 d3 g) = fadd F (rTime g) d2"
  using assms by (simp_all add: logicRoutine_body_def Let_def infos_append)

lemma iterations_log:
  "accumulated F cur g \<Longrightarrow>
   infos (events (logicRoutine_iterations F X ds g)) = infos (events g) @ periodic_log F cur ds \<and>
   accumulated F (current_interval F cur ds) (logicRoutine_iterations F X ds g)"
proof (induction ds arbitrary: cur g)
  case Nil
  then show ?case by simp
next
  case (Cons d ds)
  obtain d1 d2 d3 where d: "d = (d1, d2, d3)" by (cases d)
  let ?g = "logicRoutine_body F X d1 d2 d3 g"
  from Cons.prems have el: "fadd F (elapsed g) d3 = fsum F (map (\<lambda>t. snd (snd t)) (cur @ [d]))"
    by (simp add: accumulated_def fsum_snoc d)
  show ?case
  proof (cases "fge F (fadd F (elapsed g) d3) (flit F 1000)")
    case True
    from body_logs [OF True, of X d1 d2] have acc: "accumulated F [] ?g"
      by (simp add: accumulated_def fsum_Nil)
    from body_logs(1) [OF True, of X d1 d2] Cons.prems
    have "infos (events ?g) = infos (events g) @
        [(fdiv F (fsum F (map fst (cur @ [d]))) (float_of_size_t F (word_of_nat (length (cur @ [d])))),
          fdiv F (fsum F (map (\<lambda>t. fst (snd t)) (cur @ [d])))
            (float_of_size_t F (word_of_nat (length (cur @ [d])))))]"
      by (simp add: accumulated_def fsum_snoc d add.commute)
    with Cons.IH [OF acc] True el show ?thesis
      by (simp add: d)
  next
    case False
    from body_accumulates [OF False, of X d1 d2] Cons.prems have acc: "accumulated F (cur @ [d]) ?g"
      by (simp add: accumulated_def fsum_snoc d add.commute)
    with Cons.IH [OF acc] body_accumulates(1) [OF False, of X d1 d2] False el show ?thesis
      by (simp add: d)
  qed
qed

text \<open>
  C8. From the initial locals of \<open>logicRoutine\<close>, the logs emitted over any number of
  consecutive iterations are those of \<open>periodic_log\<close>: one log whenever the elapsed time
  accumulated since the last log has reached 1000 ms, with the accumulated physics time
  and render-preparation time each divided by the number of iterations since the last
  log. Between logs the locals hold the sums over the iterations since the last log and
  \<open>frames\<close> their number (as a \<open>size_t\<close>), and the iteration that logs leaves all four
  at zero.
\<close>

theorem periodic_average_log:
  assumes "frames g = 0" and "elapsed g = flit F 0" and "pTime g = flit F 0" and "rTime g = flit F 0"
  shows "infos (events (logicRoutine_iterations F X ds g)) = infos (events g) @ periodic_log F [] ds \<and>
         frames (logicRoutine_iterations F X ds g) = word_of_nat (length (current_interval F [] ds)) \<and>
         pTime (logicRoutine_iterations F X ds g) = fsum F (map fst (current_interval F [] ds)) \<and>
         rTime (logicRoutine_iterations F X ds g) =
           fsum F (map (\<lambda>t. fst (snd t)) (current_interval F [] ds)) \<and>
         elapsed (logicRoutine_iterations F X ds g) =
           fsum F (map (\<lambda>t. snd (snd t)) (current_interval F [] ds)) \<and>
         (fge F (fsum F (map (\<lambda>t. snd (snd t)) (current_interval F [] ds @ [d]))) (flit F 1000) \<longrightarrow>
            frames (logicRoutine_iterations F X (ds @ [d]) g) = 0 \<and>
            elapsed (logicRoutine_iterations F X (ds @ [d]) g) = flit F 0 \<and>
            pTime (logicRoutine_iterations F X (ds @ [d]) g) = flit F 0 \<and>
            rTime (logicRoutine_iterations F X (ds @ [d]) g) = flit F 0)"
proof -
  from assms have start: "accumulated F [] g"
    by (simp add: accumulated_def fsum_Nil)
  have cur_snoc: "current_interval F cur (xs @ [x]) =
      (if fge F (fsum F (map (\<lambda>t. snd (snd t)) (current_interval F cur xs @ [x]))) (flit F 1000)
       then [] else current_interval F cur xs @ [x])" for cur xs x
    by (induction xs arbitrary: cur) simp_all
  from iterations_log [OF start, of X ds] iterations_log [OF start, of X "ds @ [d]"]
  show ?thesis
    by (simp add: accumulated_def cur_snoc fsum_Nil)
qed

theorem periodic_average_log_witness:
  "infos (events (logicRoutine_iterations exact_floats recording_collaborators
      [(9, 7, 16), (400, 500, 990), (3, 4, 5)]
      (run exact_floats recording_collaborators [LogicStep 0 0 0] spawned_game)))
     = [(409 / 2, 507 / 2)] \<and>
   frames (logicRoutine_iterations exact_floats recording_collaborators
      [(9, 7, 16), (400, 500, 990), (3, 4, 5)]
      (run exact_floats recording_collaborators [LogicStep 0 0 0] spawned_game)) = 1 \<and>
   pTime (logicRoutine_iterations exact_floats recording_collaborators
      [(9, 7, 16), (400, 500, 990), (3, 4, 5)]
      (run exact_floats recording_collaborators [LogicStep 0 0 0] spawned_game)) = 3 \<and>
   frames (logicRoutine_iterations exact_floats recording_collaborators
      ([(9, 7, 16), (400, 500, 990), (3, 4, 5)] @ [(600, 700, 1200)])
      (run exact_floats recording_collaborators [LogicStep 0 0 0] spawned_game)) = 0 \<and>
   pTime (logicRoutine_iterations exact_floats recording_collaborators
      ([(9, 7, 16), (400, 500, 990), (3, 4, 5)] @ [(600, 700, 1200)])
      (run exact_floats recording_collaborators [LogicStep 0 0 0] spawned_game)) = 0"
proof -
  let ?g = "run exact_floats recording_collaborators [LogicStep 0 0 0] spawned_game"
  have start: "frames ?g = 0" "elapsed ?g = flit exact_floats 0" "pTime ?g = flit exact_floats 0"
    "rTime ?g = flit exact_floats 0" "events ?g = []"
    by (simp_all add: logicRoutine_step_def spawned_game_def Game_members_def blank_game_def)
  from periodic_average_log [OF start(1-4), of recording_collaborators
      "[(9, 7, 16), (400, 500, 990), (3, 4, 5)]" "(600, 700, 1200)"] start(5)
  show ?thesis
    by (simp add: fsum_def exact_floats_def)
qed

section \<open>Grid cells\<close>

lemma cell_holds_new: "cell_holds GridCell_new []"
  by (simp add: cell_holds_def GridCell_new_def)

lemma cell_holds_clear: "cell_holds c acc \<Longrightarrow> cell_holds (GridCell_clear c) []"
  by (simp add: cell_holds_def GridCell_clear_def)

lemma unat_count_succ:
  fixes n :: size_t
  assumes "unat n < DEFAULT_CELL_CAPACITY"
  shows "unat (n + 1) = Suc (unat n)"
proof -
  from assms have "unat n + 1 < 2 ^ 64"
    by (simp add: DEFAULT_CELL_CAPACITY_def)
  then show ?thesis
    by (simp add: unat_word_ariths)
qed

lemma cell_holds_push:
  assumes "cell_holds c acc"
  shows "cell_holds (GridCell_push particle c) (acc @ [particle])"
proof (cases "unat (count c) < DEFAULT_CELL_CAPACITY")
  case True
  with assms have len: "length acc = unat (count c)" "unat (count c) < length (particles c)"
    by (auto simp: cell_holds_def)
  from assms have stored: "take (unat (count c)) (particles c) = map Some acc"
    using True len by (simp add: cell_holds_def)
  have "take (Suc (unat (count c))) ((particles c)[unat (count c) := Some particle]) =
          map Some acc @ [Some particle]"
    using len(2) stored by (simp add: take_Suc_conv_app_nth)
  with True len assms show ?thesis
    by (simp add: cell_holds_def GridCell_push_def unat_count_succ)
next
  case False
  with assms show ?thesis
    by (auto simp: cell_holds_def GridCell_push_def)
qed

lemma cell_holds_foldl:
  "cell_holds c acc \<Longrightarrow> cell_holds (foldl cell_apply c ops) (pushed_since_clear acc ops)"
proof (induction ops arbitrary: c acc)
  case Nil
  then show ?case by simp
next
  case (Cons x ops)
  show ?case
  proof (cases x)
    case (Push particle)
    with Cons.IH [OF cell_holds_push [OF Cons.prems, of particle]] show ?thesis by simp
  next
    case ClearCell
    with Cons.IH [OF cell_holds_clear [OF Cons.prems]] show ?thesis by simp
  qed
qed

text \<open>
  C2. Whatever pushes and clears a cell has gone through since its construction, its
  count is at most 32, namely the smaller of 32 and the number of pushes since the last
  clear; the array keeps its 32 entries and holds the first 32 of those pushes, in
  order; and a push into a cell whose count is 32 returns the cell unchanged.
\<close>

theorem GridCell_capacity:
  "unat (getCount (cell_after ops)) \<le> DEFAULT_CELL_CAPACITY \<and>
   DEFAULT_CELL_CAPACITY = 32 \<and>
   unat (getCount (cell_after ops)) = min DEFAULT_CELL_CAPACITY (length (pushed_since_clear [] ops)) \<and>
   length (particles (cell_after ops)) = DEFAULT_CELL_CAPACITY \<and>
   take (unat (getCount (cell_after ops))) (particles (cell_after ops)) =
     map Some (take DEFAULT_CELL_CAPACITY (pushed_since_clear [] ops)) \<and>
   (unat (getCount (cell_after ops)) = DEFAULT_CELL_CAPACITY \<longrightarrow>
      GridCell_push particle (cell_after ops) = cell_after ops)"
proof -
  have "cell_holds (cell_after ops) (pushed_since_clear [] ops)"
    unfolding cell_after_def by (rule cell_holds_foldl [OF cell_holds_new])
  then have holds: "unat (count (cell_after ops)) =
      min DEFAULT_CELL_CAPACITY (length (pushed_since_clear [] ops)) \<and>
    length (particles (cell_after ops)) = DEFAULT_CELL_CAPACITY \<and>
    take (unat (count (cell_after ops))) (particles (cell_after ops)) =
      map Some (take DEFAULT_CELL_CAPACITY (pushed_since_clear [] ops))"
    unfolding cell_holds_def .
  then have bounded: "unat (count (cell_after ops)) \<le> DEFAULT_CELL_CAPACITY"
    by linarith
  have dropped: "unat (count (cell_after ops)) = DEFAULT_CELL_CAPACITY \<longrightarrow>
      GridCell_push particle (cell_after ops) = cell_after ops"
    by (simp add: GridCell_push_def)
  have capacity: "DEFAULT_CELL_CAPACITY = 32"
    by (simp add: DEFAULT_CELL_CAPACITY_def)
  from holds bounded dropped capacity show ?thesis
    unfolding getCount_def by blast
qed

lemma pushed_since_clear_pushes: "pushed_since_clear acc (map Push xs) = acc @ xs"
  by (induction xs arbitrary: acc) simp_all

lemma pushed_since_clear_clear:
  "pushed_since_clear acc (ops @ ClearCell # ops') = pushed_since_clear [] ops'"
proof (induction ops arbitrary: acc)
  case (Cons x ops)
  then show ?case by (cases x) simp_all
qed simp

theorem GridCell_capacity_witness:
  "unat (getCount (cell_after (map Push [0 ..< 40] :: nat cell_op list))) = 32 \<and>
   GridCell_push 99 (cell_after (map Push [0 ..< 40])) = cell_after (map Push [0 ..< 40]) \<and>
   take 32 (particles (cell_after (map Push [0 ..< 40]))) = map Some [0 ..< 32] \<and>
   unat (getCount (cell_after (map Push [0 ..< 40] @ [ClearCell, Push (7 :: nat)]))) = 1"
proof -
  have more: "pushed_since_clear [] (map Push [0 ..< 40] @ [ClearCell, Push (7 :: nat)]) = [7]"
    by (simp add: pushed_since_clear_clear)
  have len: "min DEFAULT_CELL_CAPACITY (length (pushed_since_clear [] (map Push [0 ..< 40] :: nat cell_op list))) = 32"
    by (simp add: pushed_since_clear_pushes DEFAULT_CELL_CAPACITY_def)
  have firsts: "take DEFAULT_CELL_CAPACITY (pushed_since_clear [] (map Push [0 ..< 40] :: nat cell_op list)) = [0 ..< 32]"
    by (simp add: pushed_since_clear_pushes DEFAULT_CELL_CAPACITY_def)
  note full = GridCell_capacity [of "map Push [0 ..< 40]" 99, unfolded len firsts]
  note again = GridCell_capacity [of "map Push [0 ..< 40] @ [ClearCell, Push (7 :: nat)]" 99, unfolded more]
  from full have count: "unat (getCount (cell_after (map Push [0 ..< 40] :: nat cell_op list))) = 32"
    by blast
  from full count have "GridCell_push 99 (cell_after (map Push [0 ..< 40])) = cell_after (map Push [0 ..< 40])"
    by metis
  moreover from full count have "take 32 (particles (cell_after (map Push [0 ..< 40]))) = map Some [0 ..< 32]"
    by metis
  moreover from again have "unat (getCount (cell_after (map Push [0 ..< 40] @ [ClearCell, Push (7 :: nat)]))) = 1"
    by (simp add: DEFAULT_CELL_CAPACITY_def)
  ultimately show ?thesis
    using count by blast
qed

section \<open>Presenting an empty mesh\<close>

lemma presentScene_draws:
  "db_get (mesh g) \<noteq> [] \<Longrightarrow>
   last (gl_calls (render (presentScene F X G g))) =
     Draw DrawTriangles (word_of_nat (length (db_get (mesh g))))"
  by (simp add: presentScene_def Let_def)

text \<open>
  C10. When the published mesh has no vertex, \<open>presentScene\<close>, and with it \<open>update\<close>,
  returns the game as it found it: no call is made on the graphics context and the
  vertex buffer, like every other member, is unchanged.
\<close>

theorem presentScene_empty_mesh:
  assumes "db_get (mesh g) = []"
  shows "presentScene F X G g = g \<and> update F X G g = g \<and>
         gl_calls (render (update F X G g)) = gl_calls (render g) \<and>
         surfaceVertices (render (update F X G g)) = surfaceVertices (render g)"
proof -
  from assms have "presentScene F X G g = g"
    by (simp add: presentScene_def Let_def)
  then show ?thesis
    by (simp add: update_def)
qed

theorem presentScene_empty_mesh_witness:
  "db_get (mesh (blank_game blank_presentation)) = [] \<and>
   presentScene exact_floats recording_collaborators plain_gl (blank_game blank_presentation)
     = blank_game blank_presentation \<and>
   update exact_floats recording_collaborators plain_gl (blank_game blank_presentation)
     = blank_game blank_presentation \<and>
   gl_calls (render (update exact_floats recording_collaborators plain_gl
     (blank_game blank_presentation))) = []"
proof -
  have empty: "db_get (mesh (blank_game blank_presentation)) = []"
    by (simp add: blank_game_def db_get_def)
  from presentScene_empty_mesh [OF empty, of exact_floats recording_collaborators plain_gl] empty
  show ?thesis
    by (simp add: blank_game_def blank_presentation_def)
qed

end
